theory Spec2Isabelle
  imports Main
begin

section \<open>JavaScript values, as far as the program observes them\<close>

text \<open>
  The client reads the bodies of HTTP responses as JSON and walks them with property
  reads, truthiness tests, strict comparison with string literals and
  \<^verbatim>\<open>Array.prototype.join\<close>. A number is observed only through its truthiness
  and its rendering as a string, so \<open>JNum nz s\<close> keeps exactly these two: \<open>nz\<close> says
  that the number is neither zero nor NaN, \<open>s\<close> is what ToString prints for it.
  An object is the list of its own properties, one entry for each key.
  Strings are lists of code units below 256.
\<close>

datatype jsval =
    JUndefined
  | JNull
  | JBool bool
  | JNum bool string
  | JStr string
  | JArr "jsval list"
  | JObj "(string \<times> jsval) list"

text \<open>
  What a \<^verbatim>\<open>throw\<close> or a rejected promise carries. The three error classes keep
  their \<^verbatim>\<open>message\<close>; \<open>ProgressEvent\<close> is the event a failing FileReader
  rejects with, which has no \<^verbatim>\<open>message\<close> property.
\<close>

datatype exn =
    Error string
  | TypeError string
  | SyntaxError string
  | ProgressEvent

fun truthy :: "jsval \<Rightarrow> bool" where
  "truthy JUndefined = False"
| "truthy JNull = False"
| "truthy (JBool b) = b"
| "truthy (JNum nz s) = nz"
| "truthy (JStr s) = (s \<noteq> [])"
| "truthy (JArr xs) = True"
| "truthy (JObj kvs) = True"

fun nullish :: "jsval \<Rightarrow> bool" where
  "nullish JUndefined = True"
| "nullish JNull = True"
| "nullish v = False"

text \<open>
  \<open>own_prop v p\<close> is \<^verbatim>\<open>v[p]\<close> for a value that is neither null nor undefined and
  for the property names this program reads (\<^verbatim>\<open>state\<close>, \<^verbatim>\<open>file\<close>,
  \<^verbatim>\<open>candidates\<close>, \<^verbatim>\<open>0\<close>, \<^verbatim>\<open>content\<close>, \<^verbatim>\<open>parts\<close>, \<^verbatim>\<open>text\<close>,
  \<^verbatim>\<open>error\<close>, \<^verbatim>\<open>message\<close>), none of which is inherited from a prototype. The
  only index read is 0: the first element of an array, the first code unit of a string.
\<close>

fun own_prop :: "jsval \<Rightarrow> string \<Rightarrow> jsval" where
  "own_prop (JObj kvs) p = (case map_of kvs p of Some v \<Rightarrow> v | None \<Rightarrow> JUndefined)"
| "own_prop (JArr xs) p =
     (if p = ''0'' then (case xs of [] \<Rightarrow> JUndefined | x # _ \<Rightarrow> x) else JUndefined)"
| "own_prop (JStr s) p =
     (if p = ''0'' then (case s of [] \<Rightarrow> JUndefined | c # _ \<Rightarrow> JStr [c]) else JUndefined)"
| "own_prop v p = JUndefined"

definition quoted :: "string \<Rightarrow> string" where
  "quoted p = CHR 0x27 # p @ [CHR 0x27]"

text \<open>\<^verbatim>\<open>v.p\<close>: reading a property of null or undefined throws (the wording is V8's).\<close>

definition read_prop :: "jsval \<Rightarrow> string \<Rightarrow> exn + jsval" where
  "read_prop v p =
     (if v = JUndefined then
        Inl (TypeError (''Cannot read properties of undefined (reading '' @ quoted p @ '')''))
      else if v = JNull then
        Inl (TypeError (''Cannot read properties of null (reading '' @ quoted p @ '')''))
      else Inr (own_prop v p))"

text \<open>\<^verbatim>\<open>v?.p\<close>: undefined when \<open>v\<close> is null or undefined.\<close>

definition opt_prop :: "jsval \<Rightarrow> string \<Rightarrow> jsval" where
  "opt_prop v p = (if nullish v then JUndefined else own_prop v p)"

text \<open>
  ToString, and \<^verbatim>\<open>Array.prototype.join\<close> with separator \<open>sep\<close>, which prints null and
  undefined elements as the empty string. An object prints as \<^verbatim>\<open>[object Object]\<close>
  through the inherited \<^verbatim>\<open>toString\<close>; an own property of that name (never callable
  in a parsed body) hides it, and the conversion throws.
\<close>

fun to_string :: "jsval \<Rightarrow> exn + string"
  and join :: "string \<Rightarrow> jsval list \<Rightarrow> exn + string" where
  "to_string JUndefined = Inr ''undefined''"
| "to_string JNull = Inr ''null''"
| "to_string (JBool b) = Inr (if b then ''true'' else ''false'')"
| "to_string (JNum nz s) = Inr s"
| "to_string (JStr s) = Inr s"
| "to_string (JArr xs) = join '','' xs"
| "to_string (JObj kvs) =
     (if ''toString'' \<in> fst ` set kvs
      then Inl (TypeError ''Cannot convert object to primitive value'')
      else Inr ''[object Object]'')"
| "join sep [] = Inr []"
| "join sep [x] = (if nullish x then Inr [] else to_string x)"
| "join sep (x # y # ys) =
     (case (if nullish x then Inr [] else to_string x) of
        Inl e \<Rightarrow> Inl e
      | Inr s \<Rightarrow> (case join sep (y # ys) of
                   Inl e \<Rightarrow> Inl e
                 | Inr r \<Rightarrow> Inr (s @ sep @ r)))"

text \<open>Decimal rendering of a natural number, as a template literal prints a status code.\<close>

fun show_nat :: "nat \<Rightarrow> string" where
  "show_nat n =
     (if n < 10 then [char_of (48 + n)]
      else show_nat (n div 10) @ [char_of (48 + n mod 10)])"

text \<open>
  \<^verbatim>\<open>String.prototype.trim\<close> removes white space and line terminators from both ends;
  below 256 these are the code units 9 to 13, 32 and 160.
\<close>

definition is_space :: "char \<Rightarrow> bool" where
  "is_space c = (of_char c \<in> {9, 10, 11, 12, 13, 32, 160 :: nat})"

definition trim :: "string \<Rightarrow> string" where
  "trim s = rev (dropWhile is_space (rev (dropWhile is_space s)))"

text \<open>\<^verbatim>\<open>s.split(c)\<close> for a one-character separator.\<close>

fun split :: "char \<Rightarrow> string \<Rightarrow> string list" where
  "split c [] = [[]]"
| "split c (x # xs) =
     (if x = c then [] # split c xs
      else (case split c xs of w # ws \<Rightarrow> (x # w) # ws | [] \<Rightarrow> [[x]]))"

section \<open>File handler (js/utils/fileHandler.js)\<close>

text \<open>A browser File: display name, declared MIME type and byte length.\<close>

record jsfile =
  file_name :: string
  file_type :: string
  file_size :: nat

text \<open>
  \<^verbatim>\<open>isValidPDF(file)\<close> is \<^verbatim>\<open>file && file.type === 'application/pdf'\<close>; the
  argument may be null.
\<close>

definition isValidPDF :: "jsfile option \<Rightarrow> bool" where
  "isValidPDF f = (case f of None \<Rightarrow> False | Some x \<Rightarrow> file_type x = ''application/pdf'')"

text \<open>
  \<^verbatim>\<open>isValidFileSize(file, maxSizeMB = 20)\<close>. Sizes and limits are whole numbers, far
  below 2^53, where the arithmetic of doubles is exact.
\<close>

definition isValidFileSize :: "jsfile \<Rightarrow> nat \<Rightarrow> bool" where
  "isValidFileSize f maxSizeMB = (let maxSizeBytes = maxSizeMB * 1024 * 1024 in file_size f \<le> maxSizeBytes)"

definition isValidFileSize_default :: "jsfile \<Rightarrow> bool" where
  "isValidFileSize_default f = isValidFileSize f 20"

section \<open>The browser's side: responses, file reads and the trace of effects\<close>

text \<open>
  An HTTP response as the client reads it: \<open>body_text\<close> is what
  \<^verbatim>\<open>response.text()\<close> yields and \<open>body_json\<close> what \<^verbatim>\<open>JSON.parse\<close> makes of it,
  either the message of the SyntaxError it throws or the parsed value.
  \<^verbatim>\<open>response.ok\<close> holds for the statuses 200 to 299.
\<close>

record http_response =
  status :: nat
  statusText :: string
  body_text :: string
  body_json :: "string + jsval"

definition ok :: "http_response \<Rightarrow> bool" where
  "ok r = (200 \<le> status r \<and> status r \<le> 299)"

text \<open>\<^verbatim>\<open>fetch\<close> rejects with a TypeError (no connection) or resolves with a response.\<close>

datatype fetch_outcome = Rejects string | Resolves http_response

text \<open>A FileReader fires \<^verbatim>\<open>onerror\<close>, or \<^verbatim>\<open>onload\<close> with the data URL in \<^verbatim>\<open>result\<close>.\<close>

datatype read_outcome = ReadFails | ReadLoads string

datatype http_method = GET | POST

datatype req_body = NoBody | JsonBody jsval | FormBody jsfile jsval

datatype client_method =
    UploadFile
  | UploadFileBase64
  | GetFileStatus
  | WaitForFileProcessing
  | GenerateSummary
  | GenerateSummaryFromBase64

text \<open>
  What a run does to the outside, in order: entering a method of the client, sending a
  request, sleeping (milliseconds), calling the progress callback with its argument,
  starting a file read.
\<close>

datatype event =
    Invoke client_method
  | Request http_method string req_body
  | Delay nat
  | Progress jsval
  | ReadAsDataURL jsfile

text \<open>Sequencing of steps that may throw.\<close>

definition and_then :: "exn + 'a \<Rightarrow> ('a \<Rightarrow> exn + 'b) \<Rightarrow> exn + 'b" where
  "and_then m f = (case m of Inl e \<Rightarrow> Inl e | Inr v \<Rightarrow> f v)"

section \<open>The Gemini client\<close>

record client =
  apiKey :: string
  baseUrl :: string

definition GeminiClient :: "string \<Rightarrow> client" where
  "GeminiClient key =
     \<lparr>apiKey = key, baseUrl = ''https://generativelanguage.googleapis.com/v1beta''\<rparr>"

text \<open>
  \<^verbatim>\<open>new Error(error.error?.message || dflt)\<close> for a parsed error body: the value that
  is thrown, which is another one when the evaluation itself throws.
\<close>

definition service_error :: "jsval \<Rightarrow> string \<Rightarrow> exn" where
  "service_error error dflt =
     (case read_prop error ''error'' of
        Inl e \<Rightarrow> e
      | Inr inner \<Rightarrow>
          (let m = opt_prop inner ''message'' in
           if truthy m then (case to_string m of Inl e \<Rightarrow> e | Inr s \<Rightarrow> Error s)
           else Error dflt))"

subsection \<open>uploadFile\<close>

definition upload_url :: "client \<Rightarrow> string" where
  "upload_url c = baseUrl c @ ''/files?key='' @ apiKey c"

definition uploadFile :: "client \<Rightarrow> jsfile \<Rightarrow> fetch_outcome \<Rightarrow> event list \<times> (exn + jsval)" where
  "uploadFile c f out =
     (let metadata = JObj [(''displayName'', JStr (file_name f))];
          sent = [Invoke UploadFile, Request POST (upload_url c) (FormBody f metadata)]
      in case out of
           Rejects m \<Rightarrow> (sent, Inl (TypeError m))
         | Resolves response \<Rightarrow>
             (let responseText = body_text response in
              (sent,
               if \<not> ok response then
                 (case body_json response of
                    Inl _ \<Rightarrow> Inl (Error (''Failed to upload file: '' @ show_nat (status response)
                                          @ '' '' @ statusText response))
                  | Inr error \<Rightarrow> Inl (service_error error
                                 (''Failed to upload file: '' @ show_nat (status response))))
               else if responseText = [] \<or> trim responseText = [] \<or> responseText = ''{}'' then
                 Inl (Error ''File upload returned empty response. Trying alternative method...'')
               else
                 (case body_json response of
                    Inl _ \<Rightarrow> Inl (Error (''Invalid JSON response: '' @ responseText))
                  | Inr result \<Rightarrow> Inr result))))"

subsection \<open>uploadFileBase64\<close>

record file_data =
  fd_name :: string
  fd_mimeType :: string
  fd_data :: "string option"

text \<open>
  \<^verbatim>\<open>reader.result.split(',')[1]\<close> is undefined (\<open>None\<close>) when the data URL has no
  comma.
\<close>

definition uploadFileBase64 :: "client \<Rightarrow> jsfile \<Rightarrow> read_outcome \<Rightarrow> event list \<times> (exn + file_data)" where
  "uploadFileBase64 c f out =
     ([Invoke UploadFileBase64, ReadAsDataURL f],
      case out of
        ReadFails \<Rightarrow> Inl ProgressEvent
      | ReadLoads result \<Rightarrow>
          (let base64 = (case split (CHR '','') result of _ # b # _ \<Rightarrow> Some b | _ \<Rightarrow> None)
           in Inr \<lparr>fd_name = file_name f, fd_mimeType = file_type f, fd_data = base64\<rparr>))"

subsection \<open>getFileStatus\<close>

definition startsWith :: "string \<Rightarrow> string \<Rightarrow> bool" where
  "startsWith s p = (take (length p) s = p)"

definition status_url :: "client \<Rightarrow> string \<Rightarrow> string" where
  "status_url c fileName =
     (let filePath = (if startsWith fileName ''files/'' then fileName else ''files/'' @ fileName)
      in baseUrl c @ ''/'' @ filePath @ ''?key='' @ apiKey c)"

definition status_request :: "client \<Rightarrow> string \<Rightarrow> event list" where
  "status_request c fileName = [Invoke GetFileStatus, Request GET (status_url c fileName) NoBody]"

definition getFileStatus :: "client \<Rightarrow> string \<Rightarrow> fetch_outcome \<Rightarrow> event list \<times> (exn + jsval)" where
  "getFileStatus c fileName out =
     (status_request c fileName,
      case out of
        Rejects m \<Rightarrow> Inl (TypeError m)
      | Resolves response \<Rightarrow>
          if \<not> ok response then
            (case body_json response of
               Inl _ \<Rightarrow> Inl (Error (''Failed to get file status: '' @ show_nat (status response)
                                     @ '' '' @ statusText response))
             | Inr error \<Rightarrow> Inl (service_error error ''Failed to get file status''))
          else
            (case body_json response of
               Inl m \<Rightarrow> Inl (SyntaxError m)
             | Inr v \<Rightarrow> Inr v))"

subsection \<open>waitForFileProcessing\<close>

text \<open>\<^verbatim>\<open>status.state || status.file?.state\<close>\<close>

definition getState :: "jsval \<Rightarrow> exn + jsval" where
  "getState fileStatus =
     and_then (read_prop fileStatus ''state'') (\<lambda>s.
       if truthy s then Inr s
       else and_then (read_prop fileStatus ''file'') (\<lambda>f. Inr (opt_prop f ''state'')))"

text \<open>
  The polling loop has no bound of its own: it runs as long as the service answers
  \<^verbatim>\<open>PROCESSING\<close>. A run is driven by the list of the outcomes of its status requests,
  in order; when the list is used up while the loop still polls, the last request stays
  unanswered and the run never settles, which is the result \<open>None\<close>. The callback is
  modelled by whether one was supplied; each call is recorded with its argument.

  \<open>polling c fileName onStatusUpdate fileStatus outs\<close> is the run from the loop's test
  on, with \<open>fileStatus\<close> the latest answer.
\<close>

fun polling :: "client \<Rightarrow> string \<Rightarrow> bool \<Rightarrow> jsval \<Rightarrow> fetch_outcome list
    \<Rightarrow> event list \<times> (exn + jsval) option" where
  "polling c fileName onStatusUpdate fileStatus outs =
     (case getState fileStatus of
        Inl e \<Rightarrow> ([], Some (Inl e))
      | Inr currentState \<Rightarrow>
          if currentState = JStr ''PROCESSING'' then
            (let body = (if onStatusUpdate then [Progress currentState] else []) @ [Delay 5000]
             in case outs of
                  [] \<Rightarrow> (body @ status_request c fileName, None)
                | out # rest \<Rightarrow>
                    (case getFileStatus c fileName out of
                       (sent, Inl e) \<Rightarrow> (body @ sent, Some (Inl e))
                     | (sent, Inr fileStatus') \<Rightarrow>
                         (case polling c fileName onStatusUpdate fileStatus' rest of
                            (later, res) \<Rightarrow> (body @ sent @ later, res))))
          else if currentState = JStr ''FAILED'' then
            ([], Some (Inl (Error ''File processing failed'')))
          else ([], Some (Inr fileStatus)))"

definition waitForFileProcessing :: "client \<Rightarrow> string \<Rightarrow> bool \<Rightarrow> fetch_outcome list
    \<Rightarrow> event list \<times> (exn + jsval) option" where
  "waitForFileProcessing c fileName onStatusUpdate outs =
     (case outs of
        [] \<Rightarrow> (Invoke WaitForFileProcessing # status_request c fileName, None)
      | out # rest \<Rightarrow>
          (case getFileStatus c fileName out of
             (sent, Inl e) \<Rightarrow> (Invoke WaitForFileProcessing # sent, Some (Inl e))
           | (sent, Inr fileStatus) \<Rightarrow>
               (case polling c fileName onStatusUpdate fileStatus rest of
                  (later, res) \<Rightarrow> (Invoke WaitForFileProcessing # sent @ later, res))))"

subsection \<open>generateSummary and generateSummaryFromBase64\<close>

definition generate_url :: "client \<Rightarrow> string" where
  "generate_url c = baseUrl c @ ''/models/gemini-2.5-flash:generateContent?key='' @ apiKey c"

text \<open>\<^verbatim>\<open>parts.filter(part => part.text)\<close> on the elements of an array.\<close>

fun filter_text :: "jsval list \<Rightarrow> exn + jsval list" where
  "filter_text [] = Inr []"
| "filter_text (part # rest) =
     and_then (read_prop part ''text'') (\<lambda>t.
       and_then (filter_text rest) (\<lambda>kept. Inr (if truthy t then part # kept else kept)))"

text \<open>\<^verbatim>\<open>parts.map(part => part.text)\<close> on the elements of an array.\<close>

fun map_text :: "jsval list \<Rightarrow> exn + jsval list" where
  "map_text [] = Inr []"
| "map_text (part # rest) =
     and_then (read_prop part ''text'') (\<lambda>t.
       and_then (map_text rest) (\<lambda>ts. Inr (t # ts)))"

text \<open>
  \<^verbatim>\<open>parts.filter(part => part.text).map(part => part.text)\<close> for any value of
  \<^verbatim>\<open>parts\<close>: only an array has a \<^verbatim>\<open>filter\<close> method.
\<close>

definition text_parts :: "jsval \<Rightarrow> exn + jsval list" where
  "text_parts parts =
     (case parts of
        JArr ps \<Rightarrow> and_then (filter_text ps) map_text
      | JUndefined \<Rightarrow>
          Inl (TypeError (''Cannot read properties of undefined (reading '' @ quoted ''filter'' @ '')''))
      | JNull \<Rightarrow>
          Inl (TypeError (''Cannot read properties of null (reading '' @ quoted ''filter'' @ '')''))
      | _ \<Rightarrow> Inl (TypeError ''result.candidates[0].content.parts.filter is not a function''))"

definition newline :: string where
  "newline = [CHR 0x0A]"

definition generateSummary :: "client \<Rightarrow> jsval \<Rightarrow> jsval \<Rightarrow> fetch_outcome \<Rightarrow> event list \<times> (exn + string)" where
  "generateSummary c fileUri mimeType out =
     (let requestBody =
            JObj [(''contents'', JArr [JObj [(''parts'', JArr
              [JObj [(''text'', JStr ''Summarize this document'')],
               JObj [(''fileData'', JObj [(''fileUri'', fileUri), (''mimeType'', mimeType)])]])]])];
          sent = [Invoke GenerateSummary, Request POST (generate_url c) (JsonBody requestBody)]
      in case out of
           Rejects m \<Rightarrow> (sent, Inl (TypeError m))
         | Resolves response \<Rightarrow>
             (sent,
              if \<not> ok response then
                (case body_json response of
                   Inl m \<Rightarrow> Inl (SyntaxError m)
                 | Inr error \<Rightarrow> Inl (service_error error ''Failed to generate summary''))
              else
                (case body_json response of
                   Inl m \<Rightarrow> Inl (SyntaxError m)
                 | Inr result \<Rightarrow>
                     and_then (read_prop result ''candidates'') (\<lambda>candidates.
                       if \<not> truthy candidates then Inl (Error ''No summary generated'')
                       else and_then (read_prop candidates ''0'') (\<lambda>candidate.
                         if \<not> truthy candidate then Inl (Error ''No summary generated'')
                         else and_then (read_prop candidate ''content'') (\<lambda>content.
                           if \<not> truthy content then Inl (Error ''No summary generated'')
                           else and_then (read_prop content ''parts'') (\<lambda>parts.
                             and_then (text_parts parts) (\<lambda>textParts.
                               join newline textParts))))))))"

definition generateSummaryFromBase64 :: "client \<Rightarrow> jsval \<Rightarrow> jsval \<Rightarrow> fetch_outcome \<Rightarrow> event list \<times> (exn + string)" where
  "generateSummaryFromBase64 c base64Data mimeType out =
     (let requestBody =
            JObj [(''contents'', JArr [JObj [(''parts'', JArr
              [JObj [(''text'', JStr ''Summarize this document'')],
               JObj [(''inlineData'', JObj [(''mimeType'', mimeType), (''data'', base64Data)])]])]])];
          sent = [Invoke GenerateSummaryFromBase64, Request POST (generate_url c) (JsonBody requestBody)]
      in case out of
           Rejects m \<Rightarrow> (sent, Inl (TypeError m))
         | Resolves response \<Rightarrow>
             (sent,
              if \<not> ok response then
                (case body_json response of
                   Inl _ \<Rightarrow> Inl (Error (''Failed to generate summary: '' @ show_nat (status response)
                                         @ '' '' @ statusText response))
                 | Inr error \<Rightarrow> Inl (service_error error ''Failed to generate summary''))
              else
                (case body_json response of
                   Inl m \<Rightarrow> Inl (SyntaxError m)
                 | Inr result \<Rightarrow>
                     and_then (read_prop result ''candidates'') (\<lambda>candidates.
                       if \<not> truthy candidates then Inl (Error ''No summary generated'')
                       else and_then (read_prop candidates ''0'') (\<lambda>candidate.
                         if \<not> truthy candidate then Inl (Error ''No summary generated'')
                         else and_then (read_prop candidate ''content'') (\<lambda>content.
                           if \<not> truthy content then Inl (Error ''No summary generated'')
                           else and_then (read_prop content ''parts'') (\<lambda>parts.
                             and_then (text_parts parts) (\<lambda>textParts.
                               join newline textParts))))))))"

section \<open>The upload UI (js/ui/uploadUI.js)\<close>

text \<open>
  The controller's two fields and the properties of the page's elements that the methods
  below write and that a run of the application can show. \<open>stored_apiKey\<close> is
  \<^verbatim>\<open>this.apiKey\<close>, null until a key was typed or loaded. Two writes that nothing here
  reads back are left out: the reset of the file input's value in \<^verbatim>\<open>clearFile\<close> and
  the copy of the key that \<^verbatim>\<open>saveApiKey\<close> keeps in local storage.
\<close>

record ui =
  selectedFile :: "jsfile option"
  stored_apiKey :: "string option"
  fileInfo_display :: string
  fileName_textContent :: string
  summarizeBtn_disabled :: bool
  loadingSection_display :: string
  resultSection_display :: string
  summaryContent_textContent :: string
  errorSection_display :: string
  errorMessage_textContent :: string

definition updateUI :: "ui \<Rightarrow> ui" where
  "updateUI u =
     (let hasFile = (selectedFile u \<noteq> None);
          hasApiKey = (case stored_apiKey u of
                         None \<Rightarrow> False
                       | Some k \<Rightarrow> k \<noteq> [] \<and> length (trim k) > 0);
          u1 = u\<lparr>fileInfo_display := (if hasFile then ''block'' else ''none'')\<rparr>;
          u2 = (case selectedFile u of
                  None \<Rightarrow> u1
                | Some f \<Rightarrow> u1\<lparr>fileName_textContent := file_name f\<rparr>)
      in u2\<lparr>summarizeBtn_disabled := \<not> (hasFile \<and> hasApiKey)\<rparr>)"

definition showLoading :: "ui \<Rightarrow> ui" where
  "showLoading u =
     u\<lparr>loadingSection_display := ''block'',
       resultSection_display := ''none'',
       errorSection_display := ''none'',
       summarizeBtn_disabled := True\<rparr>"

definition hideLoading :: "ui \<Rightarrow> ui" where
  "hideLoading u = updateUI (u\<lparr>loadingSection_display := ''none'', summarizeBtn_disabled := False\<rparr>)"

definition showSummary :: "ui \<Rightarrow> string \<Rightarrow> ui" where
  "showSummary u summary =
     u\<lparr>summaryContent_textContent := summary,
       resultSection_display := ''block'',
       errorSection_display := ''none''\<rparr>"

definition showError :: "ui \<Rightarrow> string \<Rightarrow> ui" where
  "showError u message =
     u\<lparr>errorMessage_textContent := message,
       errorSection_display := ''block'',
       resultSection_display := ''none''\<rparr>"

definition getSelectedFile :: "ui \<Rightarrow> jsfile option" where
  "getSelectedFile u = selectedFile u"

definition getApiKey :: "ui \<Rightarrow> string option" where
  "getApiKey u = stored_apiKey u"

text \<open>
  \<^verbatim>\<open>handleFileSelect(file)\<close>, called by the change and drop listeners with the first
  file of the list, which may be undefined.
\<close>

definition handleFileSelect :: "ui \<Rightarrow> jsfile option \<Rightarrow> ui" where
  "handleFileSelect u file =
     (case file of
        None \<Rightarrow> u
      | Some f \<Rightarrow>
          if file_type f \<noteq> ''application/pdf'' then showError u ''Please select a PDF file''
          else updateUI (u\<lparr>selectedFile := Some f\<rparr>))"

definition clearFile :: "ui \<Rightarrow> ui" where
  "clearFile u = updateUI (u\<lparr>selectedFile := None\<rparr>)"

text \<open>The listener of the key field's \<^verbatim>\<open>input\<close> event, \<open>v\<close> being the field's value.\<close>

definition apiKeyInput_input :: "ui \<Rightarrow> string \<Rightarrow> ui" where
  "apiKeyInput_input u v = updateUI (u\<lparr>stored_apiKey := Some v\<rparr>)"

text \<open>
  The constructor: no file, the key loaded from local storage (or null), then
  \<^verbatim>\<open>updateUI\<close>. The page's markup is not among the sources, so the state of its
  elements before the constructor runs is the parameter \<open>markup\<close>.
\<close>

definition UploadUI :: "ui \<Rightarrow> string option \<Rightarrow> ui" where
  "UploadUI markup loaded = updateUI (markup\<lparr>selectedFile := None, stored_apiKey := loaded\<rparr>)"

text \<open>
  What the user can do to the controller's state through its listeners: pick or drop a
  file, click the remove button, type in the key field. \<open>meanwhile acts u\<close> runs the
  listeners of \<open>acts\<close> in order.
\<close>

datatype user_action = ChooseFile "jsfile option" | RemoveFile | TypeKey string

fun listener :: "user_action \<Rightarrow> ui \<Rightarrow> ui" where
  "listener (ChooseFile file) u = handleFileSelect u file"
| "listener RemoveFile u = clearFile u"
| "listener (TypeKey v) u = apiKeyInput_input u v"

definition meanwhile :: "user_action list \<Rightarrow> ui \<Rightarrow> ui" where
  "meanwhile acts u = fold listener acts u"

section \<open>The application (PDFSummarizerApp)\<close>

record app =
  app_ui :: ui
  geminiClient :: "client option"

text \<open>\<^verbatim>\<open>error.message || 'An unexpected error occurred'\<close> for a caught value.\<close>

definition caught_message :: "exn \<Rightarrow> string" where
  "caught_message e =
     (let message = (case e of
                       Error m \<Rightarrow> JStr m
                     | TypeError m \<Rightarrow> JStr m
                     | SyntaxError m \<Rightarrow> JStr m
                     | ProgressEvent \<Rightarrow> JUndefined)
      in case message of
           JStr m \<Rightarrow> (if truthy message then m else ''An unexpected error occurred'')
         | _ \<Rightarrow> ''An unexpected error occurred'')"

text \<open>
  One click on the summarize button. The run reads the file once and sends one
  generation request; \<open>rd\<close> and \<open>out\<close> are the outcomes of the two, should the run get
  that far. The method is suspended at each of its two \<^verbatim>\<open>await\<close>s, and the page's
  listeners run meanwhile: \<open>duringRead\<close> and \<open>duringFetch\<close> are what the user did while
  the read and the request were pending, so that \<^verbatim>\<open>hideLoading\<close> and what follows act
  on the page as it is by then. File and key are the ones read on entry. A second click
  on the trigger during a run, which would start an overlapping run, is not among the
  actions. The result is what the run did to the outside and the application afterwards.
\<close>

definition handleSummarize :: "app \<Rightarrow> read_outcome \<Rightarrow> user_action list \<Rightarrow> fetch_outcome
    \<Rightarrow> user_action list \<Rightarrow> event list \<times> app" where
  "handleSummarize a rd duringRead out duringFetch =
     (let file = getSelectedFile (app_ui a);
          key = getApiKey (app_ui a);
          missing = ([], a\<lparr>app_ui := showError (app_ui a)
                       ''Please select a PDF file and enter your API key''\<rparr>)
      in case file of
           None \<Rightarrow> missing
         | Some f \<Rightarrow>
             (case key of
                None \<Rightarrow> missing
              | Some k \<Rightarrow>
                  if k = [] then missing
                  else if \<not> isValidPDF file then
                    ([], a\<lparr>app_ui := showError (app_ui a) ''Please select a valid PDF file''\<rparr>)
                  else if \<not> isValidFileSize_default f then
                    ([], a\<lparr>app_ui := showError (app_ui a) ''File size exceeds 20MB limit''\<rparr>)
                  else
                    (let loading = showLoading (app_ui a);
                         c = GeminiClient k;
                         catch = (\<lambda>u error. \<lparr>app_ui = showError (hideLoading u)
                                                (''Error: '' @ caught_message error),
                                              geminiClient = Some c\<rparr>);
                         afterRead = meanwhile duringRead loading
                     in case uploadFileBase64 c f rd of
                          (read, Inl error) \<Rightarrow> (read, catch afterRead error)
                        | (read, Inr fileData) \<Rightarrow>
                            (let afterFetch = meanwhile duringFetch afterRead
                             in case generateSummaryFromBase64 c
                                    (case fd_data fileData of None \<Rightarrow> JUndefined | Some d \<Rightarrow> JStr d)
                                    (JStr (fd_mimeType fileData)) out of
                               (sent, Inl error) \<Rightarrow> (read @ sent, catch afterFetch error)
                             | (sent, Inr summary) \<Rightarrow>
                                 (read @ sent,
                                  \<lparr>app_ui = showSummary (hideLoading afterFetch) summary,
                                   geminiClient = Some c\<rparr>)))))"

section \<open>Notions used in the statements\<close>

text \<open>
  \<open>answered out v\<close>: the request was answered with an HTTP success status and a body
  that parses to \<open>v\<close>. \<open>still_processing out\<close>: it was answered so, and the state
  read from the body is \<^verbatim>\<open>PROCESSING\<close>. \<open>success body v\<close> is the answer 200 OK with
  the text \<open>body\<close>, which parses to \<open>v\<close>. The three tests on events pick the sleeps,
  the calls of the callback and the requests out of a trace.
\<close>

definition answered :: "fetch_outcome \<Rightarrow> jsval \<Rightarrow> bool" where
  "answered out v = (case out of Rejects _ \<Rightarrow> False | Resolves r \<Rightarrow> ok r \<and> body_json r = Inr v)"

definition still_processing :: "fetch_outcome \<Rightarrow> bool" where
  "still_processing out =
     (case out of
        Rejects _ \<Rightarrow> False
      | Resolves r \<Rightarrow> ok r \<and> (case body_json r of
                                 Inl _ \<Rightarrow> False
                               | Inr v \<Rightarrow> getState v = Inr (JStr ''PROCESSING'')))"

fun polling_event :: "client \<Rightarrow> string \<Rightarrow> event \<Rightarrow> bool" where
  "polling_event c fileName (Invoke m) = (m = WaitForFileProcessing \<or> m = GetFileStatus)"
| "polling_event c fileName (Request m u b) = (m = GET \<and> u = status_url c fileName \<and> b = NoBody)"
| "polling_event c fileName (Delay ms) = (ms = 5000)"
| "polling_event c fileName (Progress v) = (v = JStr ''PROCESSING'')"
| "polling_event c fileName (ReadAsDataURL f) = False"

fun generation_call :: "client \<Rightarrow> event \<Rightarrow> bool" where
  "generation_call c (Invoke m) = (m = GenerateSummary \<or> m = GenerateSummaryFromBase64)"
| "generation_call c (Request m u b) = (u = generate_url c)"
| "generation_call c ev = False"

fun is_delay :: "event \<Rightarrow> bool" where
  "is_delay (Delay ms) = True"
| "is_delay ev = False"

fun is_progress :: "event \<Rightarrow> bool" where
  "is_progress (Progress v) = True"
| "is_progress ev = False"

fun is_request :: "event \<Rightarrow> bool" where
  "is_request (Request m u b) = True"
| "is_request ev = False"

definition success :: "string \<Rightarrow> jsval \<Rightarrow> fetch_outcome" where
  "success body v = Resolves \<lparr>status = 200, statusText = ''OK'', body_text = body, body_json = Inr v\<rparr>"

text \<open>
  For a parsed body \<open>result\<close> that is not null: \<open>has_content result\<close> is the guard
  \<^verbatim>\<open>result.candidates && result.candidates[0] && result.candidates[0].content\<close>,
  \<open>content_parts result\<close> is \<^verbatim>\<open>result.candidates[0].content.parts\<close>. A part is
  text-bearing when its \<^verbatim>\<open>text\<close> is truthy, which for a string means not empty.
  \<open>joined_by_newline\<close> puts one newline between consecutive strings.
\<close>

definition has_content :: "jsval \<Rightarrow> bool" where
  "has_content result =
     (truthy (own_prop result ''candidates'')
      \<and> truthy (own_prop (own_prop result ''candidates'') ''0'')
      \<and> truthy (own_prop (own_prop (own_prop result ''candidates'') ''0'') ''content''))"

definition content_parts :: "jsval \<Rightarrow> jsval" where
  "content_parts result =
     own_prop (own_prop (own_prop (own_prop result ''candidates'') ''0'') ''content'') ''parts''"

definition text_bearing :: "jsval \<Rightarrow> bool" where
  "text_bearing part = truthy (own_prop part ''text'')"

fun joined_by_newline :: "string list \<Rightarrow> string" where
  "joined_by_newline [] = []"
| "joined_by_newline [s] = s"
| "joined_by_newline (s # t # ts) = s @ newline @ joined_by_newline (t # ts)"

text \<open>
  Events of the inline strategy for a client made with \<open>key\<close>, and events of the
  direct strategy: entering one of its four methods, or a request to a URL under
  \<^verbatim>\<open>/files\<close>, where both the ingestion and the status endpoint live.
\<close>

fun inline_event :: "string \<Rightarrow> event \<Rightarrow> bool" where
  "inline_event key (Invoke m) = (m = UploadFileBase64 \<or> m = GenerateSummaryFromBase64)"
| "inline_event key (Request m u b) = (m = POST \<and> u = generate_url (GeminiClient key))"
| "inline_event key (ReadAsDataURL f) = True"
| "inline_event key ev = False"

definition files_endpoint :: "string \<Rightarrow> bool" where
  "files_endpoint u = startsWith u ''https://generativelanguage.googleapis.com/v1beta/files''"

fun direct_path_event :: "event \<Rightarrow> bool" where
  "direct_path_event (Invoke m) =
     (m = UploadFile \<or> m = GetFileStatus \<or> m = WaitForFileProcessing \<or> m = GenerateSummary)"
| "direct_path_event (Request m u b) = files_endpoint u"
| "direct_path_event ev = False"


text \<open>
  The two tests of \<^verbatim>\<open>updateUI\<close>, read off a page. A page is \<open>in_step\<close> when its
  trigger is enabled only with a file and a key that is not blank, which is how
  \<^verbatim>\<open>updateUI\<close> leaves it.
\<close>

definition hasFile :: "ui \<Rightarrow> bool" where
  "hasFile u = (selectedFile u \<noteq> None)"

definition hasApiKey :: "ui \<Rightarrow> bool" where
  "hasApiKey u = (case stored_apiKey u of None \<Rightarrow> False | Some k \<Rightarrow> k \<noteq> [] \<and> length (trim k) > 0)"

definition in_step :: "ui \<Rightarrow> bool" where
  "in_step u = (summarizeBtn_disabled u \<or> (hasFile u \<and> hasApiKey u))"

text \<open>
  Pages for the examples: \<open>blank_page\<close> has no inline style and no text anywhere;
  \<open>page_with f k\<close> is what the constructor and then the user make of it by choosing
  the file \<open>f\<close> and typing the key \<open>k\<close>. \<open>report\<close> is a PDF of 2 MiB, and
  \<open>invalid_key\<close> is the service's answer to a key it does not accept.
\<close>

definition blank_page :: ui where
  "blank_page =
     \<lparr>selectedFile = None, stored_apiKey = None,
      fileInfo_display = [], fileName_textContent = [],
      summarizeBtn_disabled = False,
      loadingSection_display = [], resultSection_display = [],
      summaryContent_textContent = [], errorSection_display = [],
      errorMessage_textContent = []\<rparr>"

definition page_with :: "jsfile \<Rightarrow> string \<Rightarrow> ui" where
  "page_with f k = meanwhile [ChooseFile (Some f), TypeKey k] (UploadUI blank_page None)"

definition report :: jsfile where
  "report = \<lparr>file_name = ''report.pdf'', file_type = ''application/pdf'', file_size = 2097152\<rparr>"


section \<open>Properties of the file handler\<close>

text \<open>
  C8. The size check holds exactly when the byte length is at most the configured limit,
  which is the given number of MiB times 2^20 bytes; the boundary is inclusive (a file of
  exactly the limit passes, one byte more fails); and the default limit is 20 * 2^20
  bytes.
\<close>

theorem isValidFileSize_boundary:
  "(isValidFileSize f maxSizeMB \<longleftrightarrow> file_size f \<le> maxSizeMB * 2 ^ 20)
   \<and> isValidFileSize (f\<lparr>file_size := maxSizeMB * 2 ^ 20\<rparr>) maxSizeMB
   \<and> \<not> isValidFileSize (f\<lparr>file_size := maxSizeMB * 2 ^ 20 + 1\<rparr>) maxSizeMB
   \<and> (isValidFileSize_default f \<longleftrightarrow> file_size f \<le> 20 * 2 ^ 20)"
  by (simp add: isValidFileSize_def isValidFileSize_default_def mult.commute)

section \<open>Properties of the polling loop\<close>

declare polling.simps [simp del]

lemma getFileStatus_answered:
  "answered out v \<Longrightarrow> getFileStatus c fileName out = (status_request c fileName, Inr v)"
  by (cases out) (simp_all add: answered_def getFileStatus_def)

lemma still_processing_answered:
  "still_processing out \<Longrightarrow> \<exists>v. answered out v \<and> getState v = Inr (JStr ''PROCESSING'')"
  by (cases out) (auto simp: still_processing_def answered_def split: sum.splits)

lemma polling_processing:
  "getState fs = Inr (JStr ''PROCESSING'') \<Longrightarrow> answered out v \<Longrightarrow>
   polling c fileName cb fs (out # rest) =
     ((if cb then [Progress (JStr ''PROCESSING'')] else []) @ Delay 5000 # status_request c fileName
        @ fst (polling c fileName cb v rest),
      snd (polling c fileName cb v rest))"
  by (subst polling.simps) (simp add: getFileStatus_answered split: prod.splits)

lemma polling_failed:
  "getState fs = Inr (JStr ''FAILED'') \<Longrightarrow>
   polling c fileName cb fs outs = ([], Some (Inl (Error ''File processing failed'')))"
  by (subst polling.simps) simp

lemma polling_other:
  "getState fs = Inr st \<Longrightarrow> st \<noteq> JStr ''PROCESSING'' \<Longrightarrow> st \<noteq> JStr ''FAILED'' \<Longrightarrow>
   polling c fileName cb fs outs = ([], Some (Inr fs))"
  by (subst polling.simps) simp

lemma status_request_events:
  "ev \<in> set (status_request c fileName) \<Longrightarrow> polling_event c fileName ev"
  by (auto simp: status_request_def)

lemma getFileStatus_sent: "fst (getFileStatus c fileName out) = status_request c fileName"
  by (simp add: getFileStatus_def)

lemma polling_events:
  "ev \<in> set (fst (polling c fileName cb fs outs)) \<Longrightarrow> polling_event c fileName ev"
proof (induction outs arbitrary: fs ev)
  case Nil
  then show ?case
    by (subst (asm) polling.simps)
       (auto simp: Let_def status_request_events split: sum.splits if_splits)
next
  case (Cons out rest)
  from Cons.prems show ?case
    by (subst (asm) polling.simps)
       (auto simp: Let_def case_prod_beta getFileStatus_sent status_request_events
             split: sum.splits if_splits dest: Cons.IH)
qed

lemma waitForFileProcessing_events:
  "ev \<in> set (fst (waitForFileProcessing c fileName cb outs)) \<Longrightarrow> polling_event c fileName ev"
  by (cases outs)
     (auto simp: waitForFileProcessing_def case_prod_beta getFileStatus_sent status_request_events
           split: sum.splits dest: polling_events)

lemma status_url_not_generate_url: "status_url c fileName \<noteq> generate_url c"
proof (cases "startsWith fileName ''files/''")
  case True
  then obtain rest where "fileName = CHR ''f'' # rest"
    by (cases fileName) (auto simp: startsWith_def)
  then show ?thesis by (simp add: status_url_def generate_url_def)
next
  case False
  then show ?thesis by (simp add: status_url_def generate_url_def)
qed

lemma polling_event_not_generation:
  "polling_event c fileName ev \<Longrightarrow> \<not> generation_call c ev"
  by (cases ev) (auto simp: status_url_not_generate_url)

lemma answered_success: "answered (success body v) v"
  by (simp add: answered_def success_def ok_def)

text \<open>
  C1. A polling run whose status requests are answered with the states
  \<^verbatim>\<open>PROCESSING\<close>, \<^verbatim>\<open>PROCESSING\<close>, \<^verbatim>\<open>ACTIVE\<close> (each read from either shape of
  the body) sleeps exactly twice, 5000 ms each time, and polls again after each sleep:
  three status requests in all, the first one at once. A supplied callback is called
  exactly twice, before each sleep, with \<^verbatim>\<open>"PROCESSING"\<close>; without a callback there
  is no call. The run then returns the third answer.
\<close>

theorem polling_processing_twice_then_active:
  assumes "answered out1 s1" and "getState s1 = Inr (JStr ''PROCESSING'')"
    and "answered out2 s2" and "getState s2 = Inr (JStr ''PROCESSING'')"
    and "answered out3 s3" and "getState s3 = Inr (JStr ''ACTIVE'')"
  shows "waitForFileProcessing c fileName onStatusUpdate (out1 # out2 # out3 # rest) =
           ([Invoke WaitForFileProcessing,
             Invoke GetFileStatus, Request GET (status_url c fileName) NoBody]
            @ (if onStatusUpdate then [Progress (JStr ''PROCESSING'')] else [])
            @ [Delay 5000, Invoke GetFileStatus, Request GET (status_url c fileName) NoBody]
            @ (if onStatusUpdate then [Progress (JStr ''PROCESSING'')] else [])
            @ [Delay 5000, Invoke GetFileStatus, Request GET (status_url c fileName) NoBody],
            Some (Inr s3))
         \<and> filter is_delay (fst (waitForFileProcessing c fileName onStatusUpdate (out1 # out2 # out3 # rest)))
             = [Delay 5000, Delay 5000]
         \<and> filter is_progress (fst (waitForFileProcessing c fileName onStatusUpdate (out1 # out2 # out3 # rest)))
             = (if onStatusUpdate then [Progress (JStr ''PROCESSING''), Progress (JStr ''PROCESSING'')] else [])
         \<and> length (filter is_request (fst (waitForFileProcessing c fileName onStatusUpdate (out1 # out2 # out3 # rest))))
             = 3"
proof -
  have last: "polling c fileName onStatusUpdate s3 rest = ([], Some (Inr s3))"
    using assms(6) by (simp add: polling_other)
  have run: "waitForFileProcessing c fileName onStatusUpdate (out1 # out2 # out3 # rest) =
      (Invoke WaitForFileProcessing # status_request c fileName
        @ (if onStatusUpdate then [Progress (JStr ''PROCESSING'')] else [])
        @ Delay 5000 # status_request c fileName
        @ (if onStatusUpdate then [Progress (JStr ''PROCESSING'')] else [])
        @ Delay 5000 # status_request c fileName,
       Some (Inr s3))"
    by (simp add: waitForFileProcessing_def getFileStatus_answered [OF assms(1)]
          polling_processing [OF assms(2) assms(3)] polling_processing [OF assms(4) assms(5)] last)
  show ?thesis
    unfolding run by (simp add: status_request_def)
qed

theorem polling_processing_twice_then_active_witness:
  \<open>waitForFileProcessing (GeminiClient ''key'') ''files/abc'' True
     [success ''{"state":"PROCESSING"}'' (JObj [(''state'', JStr ''PROCESSING'')]),
      success ''{"file":{"state":"PROCESSING"}}'' (JObj [(''file'', JObj [(''state'', JStr ''PROCESSING'')])]),
      success ''{"state":"ACTIVE"}'' (JObj [(''state'', JStr ''ACTIVE'')])]
   = ([Invoke WaitForFileProcessing,
       Invoke GetFileStatus, Request GET (status_url (GeminiClient ''key'') ''files/abc'') NoBody,
       Progress (JStr ''PROCESSING''),
       Delay 5000, Invoke GetFileStatus, Request GET (status_url (GeminiClient ''key'') ''files/abc'') NoBody,
       Progress (JStr ''PROCESSING''),
       Delay 5000, Invoke GetFileStatus, Request GET (status_url (GeminiClient ''key'') ''files/abc'') NoBody],
      Some (Inr (JObj [(''state'', JStr ''ACTIVE'')])))\<close>
proof -
  have s1: \<open>getState (JObj [(''state'', JStr ''PROCESSING'')]) = Inr (JStr ''PROCESSING'')\<close>
    by (simp add: getState_def and_then_def read_prop_def)
  have s2: \<open>getState (JObj [(''file'', JObj [(''state'', JStr ''PROCESSING'')])]) = Inr (JStr ''PROCESSING'')\<close>
    by (simp add: getState_def and_then_def read_prop_def opt_prop_def)
  have s3: \<open>getState (JObj [(''state'', JStr ''ACTIVE'')]) = Inr (JStr ''ACTIVE'')\<close>
    by (simp add: getState_def and_then_def read_prop_def)
  from polling_processing_twice_then_active [OF answered_success s1 answered_success s2 answered_success s3]
  show ?thesis by simp
qed

text \<open>
  C2. A polling run whose status requests are answered with \<^verbatim>\<open>PROCESSING\<close> any
  number of times and then with \<^verbatim>\<open>FAILED\<close> throws the error
  \<^verbatim>\<open>File processing failed\<close>, and nothing it does is a call of a generation method
  or a request to the content-generation URL.
\<close>

theorem failed_state_throws_without_generation:
  assumes "\<forall>out \<in> set outs. still_processing out"
    and "answered final s" and "getState s = Inr (JStr ''FAILED'')"
  shows "snd (waitForFileProcessing c fileName onStatusUpdate (outs @ final # rest))
           = Some (Inl (Error ''File processing failed''))
         \<and> (\<forall>ev \<in> set (fst (waitForFileProcessing c fileName onStatusUpdate (outs @ final # rest))).
               \<not> generation_call c ev)"
proof -
  have loop: "snd (polling c fileName onStatusUpdate fs (outs @ final # rest))
                = Some (Inl (Error ''File processing failed''))"
    if "getState fs = Inr (JStr ''PROCESSING'')" "\<forall>out \<in> set outs. still_processing out"
    for fs outs
    using that
  proof (induction outs arbitrary: fs)
    case Nil
    then show ?case
      by (simp add: polling_processing [OF _ assms(2)] polling_failed [OF assms(3)])
  next
    case (Cons out outs)
    then obtain v where v: "answered out v" "getState v = Inr (JStr ''PROCESSING'')"
      using still_processing_answered [of out] by auto
    with Cons show ?case
      by (simp add: polling_processing [OF _ v(1)])
  qed
  have "snd (waitForFileProcessing c fileName onStatusUpdate (outs @ final # rest))
          = Some (Inl (Error ''File processing failed''))"
  proof (cases outs)
    case Nil
    then show ?thesis
      by (simp add: waitForFileProcessing_def getFileStatus_answered [OF assms(2)]
            polling_failed [OF assms(3)])
  next
    case (Cons out outs')
    then obtain v where v: "answered out v" "getState v = Inr (JStr ''PROCESSING'')"
      using still_processing_answered [of out] assms(1) by auto
    have "\<forall>out \<in> set outs'. still_processing out"
      using assms(1) Cons by simp
    from loop [OF v(2) this] show ?thesis
      by (simp add: Cons waitForFileProcessing_def getFileStatus_answered [OF v(1)] case_prod_beta)
  qed
  moreover have "\<forall>ev \<in> set (fst (waitForFileProcessing c fileName onStatusUpdate (outs @ final # rest))).
      \<not> generation_call c ev"
    using waitForFileProcessing_events polling_event_not_generation by blast
  ultimately show ?thesis by simp
qed

theorem failed_state_throws_without_generation_witness:
  \<open>snd (waitForFileProcessing (GeminiClient ''key'') ''abc'' False
          [success ''{"state":"PROCESSING"}'' (JObj [(''state'', JStr ''PROCESSING'')]),
           success ''{"state":"FAILED"}'' (JObj [(''state'', JStr ''FAILED'')])])
     = Some (Inl (Error ''File processing failed''))
   \<and> list_all (\<lambda>ev. \<not> generation_call (GeminiClient ''key'') ev)
        (fst (waitForFileProcessing (GeminiClient ''key'') ''abc'' False
          [success ''{"state":"PROCESSING"}'' (JObj [(''state'', JStr ''PROCESSING'')]),
           success ''{"state":"FAILED"}'' (JObj [(''state'', JStr ''FAILED'')])]))\<close>
proof -
  have p: \<open>\<forall>out \<in> set [success ''{"state":"PROCESSING"}'' (JObj [(''state'', JStr ''PROCESSING'')])].
             still_processing out\<close>
    by (simp add: still_processing_def success_def ok_def getState_def and_then_def read_prop_def)
  have f: \<open>getState (JObj [(''state'', JStr ''FAILED'')]) = Inr (JStr ''FAILED'')\<close>
    by (simp add: getState_def and_then_def read_prop_def)
  from failed_state_throws_without_generation [OF p answered_success f, of _ _ _ _ "[]"]
  show ?thesis by (simp add: list_all_iff)
qed

section \<open>Properties of the summary extraction\<close>

lemma truthy_not_nullish: "truthy v \<Longrightarrow> \<not> nullish v"
  by (cases v) simp_all

lemma read_prop_defined: "\<not> nullish v \<Longrightarrow> read_prop v p = Inr (own_prop v p)"
  by (cases v) (simp_all add: read_prop_def)

lemma has_content_not_nullish: "has_content result \<Longrightarrow> \<not> nullish result"
  by (cases result) (simp_all add: has_content_def)

lemma generateSummary_success:
  assumes "ok r" and "body_json r = Inr result" and "\<not> nullish result"
  shows "snd (generateSummary c fileUri mimeType (Resolves r)) =
           (if has_content result
            then and_then (text_parts (content_parts result)) (join newline)
            else Inl (Error ''No summary generated''))"
  using assms
  by (simp add: generateSummary_def has_content_def content_parts_def and_then_def
        read_prop_defined truthy_not_nullish)

lemma generateSummaryFromBase64_success:
  assumes "ok r" and "body_json r = Inr result" and "\<not> nullish result"
  shows "snd (generateSummaryFromBase64 c base64Data mimeType (Resolves r)) =
           (if has_content result
            then and_then (text_parts (content_parts result)) (join newline)
            else Inl (Error ''No summary generated''))"
  using assms
  by (simp add: generateSummaryFromBase64_def has_content_def content_parts_def and_then_def
        read_prop_defined truthy_not_nullish)

lemma filter_text_defined:
  "\<forall>p \<in> set ps. \<not> nullish p \<Longrightarrow> filter_text ps = Inr (filter text_bearing ps)"
  by (induction ps) (simp_all add: and_then_def read_prop_defined text_bearing_def)

lemma map_text_defined:
  "\<forall>p \<in> set ps. \<not> nullish p \<Longrightarrow> map_text ps = Inr (map (\<lambda>p. own_prop p ''text'') ps)"
  by (induction ps) (simp_all add: and_then_def read_prop_defined)

lemma text_parts_array:
  assumes "\<forall>p \<in> set ps. \<not> nullish p"
  shows "text_parts (JArr ps) = Inr (map (\<lambda>p. own_prop p ''text'') (filter text_bearing ps))"
proof -
  have "\<forall>p \<in> set (filter text_bearing ps). \<not> nullish p"
    using assms by simp
  then show ?thesis
    by (simp add: text_parts_def and_then_def filter_text_defined [OF assms] map_text_defined)
qed

lemma join_newline_strings: "join newline (map JStr ts) = Inr (joined_by_newline ts)"
  by (induction ts rule: joined_by_newline.induct) simp_all

text \<open>
  C3, as the code has it. For an HTTP-success generation response whose parsed body is
  not null and has no candidates, no first candidate or no content in it (the guard
  fails), both generation methods throw the error \<^verbatim>\<open>No summary generated\<close>. Where
  the first candidate has content whose parts are an array of non-null elements without
  a text-bearing part (empty, or non-text parts only), neither throws: both return the
  empty string.
\<close>

theorem no_summary_error_cases:
  assumes "ok r" and "body_json r = Inr result" and "\<not> nullish result"
  shows "(\<not> has_content result \<longrightarrow>
            snd (generateSummary c fileUri mimeType (Resolves r)) = Inl (Error ''No summary generated'')
          \<and> snd (generateSummaryFromBase64 c base64Data mimeType (Resolves r)) = Inl (Error ''No summary generated''))
       \<and> (\<forall>ps. has_content result \<and> content_parts result = JArr ps
                \<and> (\<forall>p \<in> set ps. \<not> nullish p \<and> \<not> text_bearing p) \<longrightarrow>
            snd (generateSummary c fileUri mimeType (Resolves r)) = Inr []
          \<and> snd (generateSummaryFromBase64 c base64Data mimeType (Resolves r)) = Inr [])"
proof -
  have "text_parts (JArr ps) = Inr []" if "\<forall>p \<in> set ps. \<not> nullish p \<and> \<not> text_bearing p" for ps
  proof -
    from that have "filter text_bearing ps = []" by (simp add: filter_empty_conv)
    with that show ?thesis by (simp add: text_parts_array)
  qed
  then show ?thesis
    by (simp add: generateSummary_success [OF assms] generateSummaryFromBase64_success [OF assms]
          and_then_def)
qed

theorem no_summary_error_cases_witness:
  \<open>snd (generateSummary (GeminiClient ''key'') (JStr ''files/abc'') (JStr ''application/pdf'')
          (success ''{"promptFeedback":{}}'' (JObj [(''promptFeedback'', JObj [])])))
     = Inl (Error ''No summary generated'')
   \<and> snd (generateSummaryFromBase64 (GeminiClient ''key'') (JStr ''JVBERi0='') (JStr ''application/pdf'')
          (success ''{"promptFeedback":{}}'' (JObj [(''promptFeedback'', JObj [])])))
     = Inl (Error ''No summary generated'')
   \<and> snd (generateSummary (GeminiClient ''key'') (JStr ''files/abc'') (JStr ''application/pdf'')
          (success ''{"candidates":[{"content":{"parts":[{"thought":true}]}}]}''
             (JObj [(''candidates'', JArr [JObj [(''content'',
                JObj [(''parts'', JArr [JObj [(''thought'', JBool True)]])])]])])))
     = Inr []\<close>
proof -
  have ok: "ok \<lparr>status = 200, statusText = ''OK'', body_text = b, body_json = Inr v\<rparr>" for b v
    by (simp add: ok_def)
  have a: \<open>\<not> has_content (JObj [(''promptFeedback'', JObj [])])\<close>
    by (simp add: has_content_def)
  have b: \<open>has_content (JObj [(''candidates'', JArr [JObj [(''content'',
                JObj [(''parts'', JArr [JObj [(''thought'', JBool True)]])])]])])
           \<and> content_parts (JObj [(''candidates'', JArr [JObj [(''content'',
                JObj [(''parts'', JArr [JObj [(''thought'', JBool True)]])])]])])
               = JArr [JObj [(''thought'', JBool True)]]
           \<and> (\<forall>p \<in> set [JObj [(''thought'', JBool True)]]. \<not> nullish p \<and> \<not> text_bearing p)\<close>
    by (simp add: has_content_def content_parts_def text_bearing_def)
  show ?thesis
    using no_summary_error_cases [OF ok, where result = "JObj [(''promptFeedback'', JObj [])]"
        and c = "GeminiClient ''key''"] a
      no_summary_error_cases [OF ok, where c = "GeminiClient ''key''" and fileUri = "JStr ''files/abc''"
        and mimeType = "JStr ''application/pdf''"] b
    by (simp add: success_def)
qed

text \<open>
  The claim as the specification words it fails: a success response whose first candidate
  has content with an empty parts list, or with a non-text part only, yields the empty
  summary and no error.
\<close>

theorem no_text_parts_returns_empty_summary:
  \<open>snd (generateSummaryFromBase64 (GeminiClient ''key'') (JStr ''JVBERi0='') (JStr ''application/pdf'')
          (success ''{"candidates":[{"content":{"parts":[]}}]}''
             (JObj [(''candidates'', JArr [JObj [(''content'', JObj [(''parts'', JArr [])])]])])))
     = Inr []
   \<and> snd (generateSummary (GeminiClient ''key'') (JStr ''files/abc'') (JStr ''application/pdf'')
          (success ''{"candidates":[{"content":{"parts":[{"inlineData":{}}]}}]}''
             (JObj [(''candidates'', JArr [JObj [(''content'',
                JObj [(''parts'', JArr [JObj [(''inlineData'', JObj [])]])])]])])))
     = Inr []\<close>
  by (simp add: generateSummaryFromBase64_def generateSummary_def success_def ok_def and_then_def
        read_prop_def text_parts_def)

text \<open>
  C4. For an HTTP-success generation response whose first candidate has content with an
  array of parts (none of them null), the summary of either generation method is the
  \<^verbatim>\<open>text\<close> values of the text-bearing parts, in order, joined with a newline as
  separator; when these values are strings, it is the strings with one newline between
  consecutive ones.
\<close>

theorem summary_is_joined_text_parts:
  assumes "ok r" and "body_json r = Inr result" and "has_content result"
    and "content_parts result = JArr ps" and "\<forall>p \<in> set ps. \<not> nullish p"
  shows "snd (generateSummary c fileUri mimeType (Resolves r))
           = join newline (map (\<lambda>p. own_prop p ''text'') (filter text_bearing ps))
       \<and> snd (generateSummaryFromBase64 c base64Data mimeType (Resolves r))
           = join newline (map (\<lambda>p. own_prop p ''text'') (filter text_bearing ps))
       \<and> (\<forall>ts. map (\<lambda>p. own_prop p ''text'') (filter text_bearing ps) = map JStr ts \<longrightarrow>
             snd (generateSummary c fileUri mimeType (Resolves r)) = Inr (joined_by_newline ts)
           \<and> snd (generateSummaryFromBase64 c base64Data mimeType (Resolves r)) = Inr (joined_by_newline ts))"
proof -
  note defined = has_content_not_nullish [OF assms(3)]
  show ?thesis
    by (simp add: generateSummary_success [OF assms(1,2) defined]
          generateSummaryFromBase64_success [OF assms(1,2) defined]
          assms(3,4) text_parts_array [OF assms(5)] and_then_def join_newline_strings)
qed

theorem summary_is_joined_text_parts_witness:
  \<open>snd (generateSummary (GeminiClient ''key'') (JStr ''files/abc'') (JStr ''application/pdf'')
          (success ''{"candidates":[{"content":{"parts":[{"text":"A"},{"text":"B"}]}}]}''
             (JObj [(''candidates'', JArr [JObj [(''content'',
                JObj [(''parts'', JArr [JObj [(''text'', JStr ''A'')], JObj [(''text'', JStr ''B'')]])])]])])))
     = Inr [CHR ''A'', CHR 0x0A, CHR ''B'']
   \<and> snd (generateSummaryFromBase64 (GeminiClient ''key'') (JStr ''JVBERi0='') (JStr ''application/pdf'')
          (success ''{"candidates":[{"content":{"parts":[{"text":"A"},{"text":"B"}]}}]}''
             (JObj [(''candidates'', JArr [JObj [(''content'',
                JObj [(''parts'', JArr [JObj [(''text'', JStr ''A'')], JObj [(''text'', JStr ''B'')]])])]])])))
     = Inr [CHR ''A'', CHR 0x0A, CHR ''B'']\<close>
proof -
  let ?ps = \<open>[JObj [(''text'', JStr ''A'')], JObj [(''text'', JStr ''B'')]]\<close>
  let ?result = \<open>JObj [(''candidates'', JArr [JObj [(''content'', JObj [(''parts'', JArr ?ps)])]])]\<close>
  have ok: "ok \<lparr>status = 200, statusText = ''OK'', body_text = b, body_json = Inr ?result\<rparr>" for b
    by (simp add: ok_def)
  have c: "has_content ?result" by (simp add: has_content_def)
  have p: "content_parts ?result = JArr ?ps" by (simp add: content_parts_def)
  have n: "\<forall>p \<in> set ?ps. \<not> nullish p" by simp
  have t: "map (\<lambda>p. own_prop p ''text'') (filter text_bearing ?ps) = map JStr [''A'', ''B'']"
    by (simp add: text_bearing_def)
  from summary_is_joined_text_parts [OF ok _ c p n, where c = "GeminiClient ''key''"] t
  show ?thesis
    by (simp add: success_def newline_def)
qed

text \<open>
  The one place where the two generation methods answer differently is an HTTP-error
  response whose body is not JSON: \<^verbatim>\<open>generateSummary\<close> lets the SyntaxError of
  \<^verbatim>\<open>response.json()\<close> escape, \<^verbatim>\<open>generateSummaryFromBase64\<close> reports the status.
\<close>

lemma unparsed_error_body:
  assumes "\<not> ok r" and "body_json r = Inl m"
  shows "snd (generateSummary c fileUri mimeType (Resolves r)) = Inl (SyntaxError m)"
    and "snd (generateSummaryFromBase64 c base64Data mimeType (Resolves r))
           = Inl (Error (''Failed to generate summary: '' @ show_nat (status r) @ '' '' @ statusText r))"
  using assms by (simp_all add: generateSummary_def generateSummaryFromBase64_def)

text \<open>
  C7. The two strategies keep the same output contract. For every outcome of the
  generation request, \<^verbatim>\<open>generateSummary\<close> returns a summary exactly when
  \<^verbatim>\<open>generateSummaryFromBase64\<close> returns it, and the one throws
  \<^verbatim>\<open>No summary generated\<close> exactly when the other does, whatever file reference or
  inline data was sent. Moreover the two results are equal altogether, errors included,
  unless the response is an HTTP error whose body is not JSON.
\<close>

theorem generate_paths_agree:
  "(snd (generateSummary c fileUri mimeType out) = Inr summary
      \<longleftrightarrow> snd (generateSummaryFromBase64 c' base64Data mimeType' out) = Inr summary)
   \<and> (snd (generateSummary c fileUri mimeType out) = Inl (Error ''No summary generated'')
      \<longleftrightarrow> snd (generateSummaryFromBase64 c' base64Data mimeType' out) = Inl (Error ''No summary generated''))
   \<and> ((case out of Rejects _ \<Rightarrow> True | Resolves r \<Rightarrow> ok r \<or> \<not> isl (body_json r)) \<longrightarrow>
        snd (generateSummary c fileUri mimeType out)
          = snd (generateSummaryFromBase64 c' base64Data mimeType' out))"
proof (cases out)
  case (Rejects m)
  then show ?thesis
    by (simp add: generateSummary_def generateSummaryFromBase64_def)
next
  case (Resolves r)
  then show ?thesis
    by (cases "body_json r") (auto simp: generateSummary_def generateSummaryFromBase64_def)
qed

theorem generate_paths_agree_witness:
  \<open>snd (generateSummary (GeminiClient ''key'') (JStr ''files/abc'') (JStr ''application/pdf'')
          (success ''{"candidates":[{"content":{"parts":[{"text":"Summary."}]}}]}''
             (JObj [(''candidates'', JArr [JObj [(''content'',
                JObj [(''parts'', JArr [JObj [(''text'', JStr ''Summary.'')]])])]])])))
     = snd (generateSummaryFromBase64 (GeminiClient ''key'') (JStr ''JVBERi0='') (JStr ''application/pdf'')
          (success ''{"candidates":[{"content":{"parts":[{"text":"Summary."}]}}]}''
             (JObj [(''candidates'', JArr [JObj [(''content'',
                JObj [(''parts'', JArr [JObj [(''text'', JStr ''Summary.'')]])])]])])))
   \<and> snd (generateSummaryFromBase64 (GeminiClient ''key'') (JStr ''JVBERi0='') (JStr ''application/pdf'')
          (success ''{"candidates":[{"content":{"parts":[{"text":"Summary."}]}}]}''
             (JObj [(''candidates'', JArr [JObj [(''content'',
                JObj [(''parts'', JArr [JObj [(''text'', JStr ''Summary.'')]])])]])])))
     = Inr ''Summary.''\<close>
proof -
  let ?r = \<open>\<lparr>status = 200, statusText = ''OK'',
             body_text = ''{"candidates":[{"content":{"parts":[{"text":"Summary."}]}}]}'',
             body_json = Inr (JObj [(''candidates'', JArr [JObj [(''content'',
                JObj [(''parts'', JArr [JObj [(''text'', JStr ''Summary.'')]])])]])])\<rparr>\<close>
  have h: "case Resolves ?r of Rejects _ \<Rightarrow> True | Resolves r \<Rightarrow> ok r \<or> \<not> isl (body_json r)"
    by (simp add: ok_def)
  have v: "snd (generateSummaryFromBase64 (GeminiClient ''key'') (JStr ''JVBERi0='')
                 (JStr ''application/pdf'') (Resolves ?r)) = Inr ''Summary.''"
    by (simp add: generateSummaryFromBase64_def ok_def and_then_def read_prop_def text_parts_def)
  from generate_paths_agree [where out = "Resolves ?r" and c = "GeminiClient ''key''"
      and fileUri = "JStr ''files/abc''" and mimeType = "JStr ''application/pdf''"
      and c' = "GeminiClient ''key''" and base64Data = "JStr ''JVBERi0=''"
      and mimeType' = "JStr ''application/pdf''"] h v
  show ?thesis by (simp add: success_def)
qed

section \<open>Properties of uploadFile\<close>

text \<open>
  C5. An ingestion response with an HTTP success status and an empty body (no text,
  white space only, or \<^verbatim>\<open>{}\<close>) makes \<^verbatim>\<open>uploadFile\<close> throw its empty-response
  error instead of returning an upload record; the upload request is all the method
  does, no status request follows.
\<close>

theorem empty_upload_response_is_malformed:
  assumes "ok r" and "body_text r = [] \<or> trim (body_text r) = [] \<or> body_text r = ''{}''"
  shows "uploadFile c f (Resolves r) =
           ([Invoke UploadFile,
             Request POST (upload_url c) (FormBody f (JObj [(''displayName'', JStr (file_name f))]))],
            Inl (Error ''File upload returned empty response. Trying alternative method...''))
       \<and> Invoke WaitForFileProcessing \<notin> set (fst (uploadFile c f (Resolves r)))
       \<and> Invoke GetFileStatus \<notin> set (fst (uploadFile c f (Resolves r)))"
  using assms by (auto simp: uploadFile_def Let_def)

theorem empty_upload_response_is_malformed_witness:
  "uploadFile (GeminiClient ''key'')
     \<lparr>file_name = ''report.pdf'', file_type = ''application/pdf'', file_size = 2097152\<rparr>
     (Resolves \<lparr>status = 200, statusText = ''OK'', body_text = [],
                body_json = Inl ''Unexpected end of JSON input''\<rparr>)
   = ([Invoke UploadFile,
       Request POST ''https://generativelanguage.googleapis.com/v1beta/files?key=key''
         (FormBody \<lparr>file_name = ''report.pdf'', file_type = ''application/pdf'', file_size = 2097152\<rparr>
            (JObj [(''displayName'', JStr ''report.pdf'')]))],
      Inl (Error ''File upload returned empty response. Trying alternative method...''))"
proof -
  let ?r = "\<lparr>status = 200, statusText = ''OK'', body_text = [],
             body_json = Inl ''Unexpected end of JSON input''\<rparr>"
  have ok: "ok ?r" by (simp add: ok_def)
  have empty: "body_text ?r = [] \<or> trim (body_text ?r) = [] \<or> body_text ?r = ''{}''" by simp
  from empty_upload_response_is_malformed [OF ok empty] show ?thesis
    by (simp add: upload_url_def GeminiClient_def)
qed

section \<open>Properties of handleSummarize\<close>

lemma files_endpoint_upload_url: "files_endpoint (upload_url (GeminiClient key))"
  by (simp add: files_endpoint_def upload_url_def GeminiClient_def startsWith_def)

lemma files_endpoint_status_url: "files_endpoint (status_url (GeminiClient key) fileName)"
proof (cases "startsWith fileName ''files/''")
  case True
  then obtain rest where "fileName = ''files/'' @ rest"
    by (metis append_take_drop_id startsWith_def)
  then show ?thesis
    by (simp add: files_endpoint_def status_url_def GeminiClient_def startsWith_def)
next
  case False
  then show ?thesis
    by (simp add: files_endpoint_def status_url_def GeminiClient_def startsWith_def)
qed

lemma generate_url_not_files_endpoint: "\<not> files_endpoint (generate_url (GeminiClient key))"
  by (simp add: files_endpoint_def generate_url_def GeminiClient_def startsWith_def)

lemma uploadFileBase64_events:
  "fst (uploadFileBase64 c f rd) = [Invoke UploadFileBase64, ReadAsDataURL f]"
  by (simp add: uploadFileBase64_def)

lemma generateSummaryFromBase64_events:
  "\<exists>b. fst (generateSummaryFromBase64 c base64Data mimeType out)
         = [Invoke GenerateSummaryFromBase64, Request POST (generate_url c) b]"
  by (cases out) (simp_all add: generateSummaryFromBase64_def Let_def)

lemma handleSummarize_events:
  "fst (handleSummarize a rd duringRead out duringFetch) = [] \<or>
   (\<exists>f k b. selectedFile (app_ui a) = Some f \<and> stored_apiKey (app_ui a) = Some k \<and>
      (fst (handleSummarize a rd duringRead out duringFetch) = [Invoke UploadFileBase64, ReadAsDataURL f] \<or>
       fst (handleSummarize a rd duringRead out duringFetch) =
         [Invoke UploadFileBase64, ReadAsDataURL f,
          Invoke GenerateSummaryFromBase64, Request POST (generate_url (GeminiClient k)) b]))"
proof (cases "selectedFile (app_ui a)")
  case None
  then show ?thesis by (simp add: handleSummarize_def getSelectedFile_def)
next
  case (Some f)
  show ?thesis
  proof (cases "stored_apiKey (app_ui a)")
    case None
    with Some show ?thesis by (simp add: handleSummarize_def getSelectedFile_def getApiKey_def)
  next
    case key: (Some k)
    obtain fd where up: "snd (uploadFileBase64 (GeminiClient k) f rd) = Inl ProgressEvent
        \<or> snd (uploadFileBase64 (GeminiClient k) f rd) = Inr fd"
      by (cases rd) (simp_all add: uploadFileBase64_def)
    obtain b where gen: "fst (generateSummaryFromBase64 (GeminiClient k)
          (case fd_data fd of None \<Rightarrow> JUndefined | Some d \<Rightarrow> JStr d) (JStr (fd_mimeType fd)) out)
        = [Invoke GenerateSummaryFromBase64, Request POST (generate_url (GeminiClient k)) b]"
      using generateSummaryFromBase64_events by blast
    from up show ?thesis
      using Some key gen
      by (auto simp: handleSummarize_def getSelectedFile_def getApiKey_def Let_def
            case_prod_beta uploadFileBase64_events split: sum.splits)
  qed
qed

text \<open>
  What \<^verbatim>\<open>updateUI\<close> and \<^verbatim>\<open>hideLoading\<close> leave in each field, and the pages that can
  occur: the constructor makes a page that is in step, and every listener and every run
  keeps it so. On such a page the trigger can be clicked only with a file and a key that
  is not blank.
\<close>

lemma updateUI_fields:
  "selectedFile (updateUI u) = selectedFile u"
  "stored_apiKey (updateUI u) = stored_apiKey u"
  "summarizeBtn_disabled (updateUI u) = (\<not> (hasFile u \<and> hasApiKey u))"
  "loadingSection_display (updateUI u) = loadingSection_display u"
  "resultSection_display (updateUI u) = resultSection_display u"
  "errorSection_display (updateUI u) = errorSection_display u"
  "errorMessage_textContent (updateUI u) = errorMessage_textContent u"
  "summaryContent_textContent (updateUI u) = summaryContent_textContent u"
  by (auto simp: updateUI_def hasFile_def hasApiKey_def Let_def split: option.splits)


lemma in_step_updateUI: "in_step (updateUI u)"
  by (auto simp: in_step_def hasFile_def hasApiKey_def updateUI_fields)

lemma in_step_showError: "in_step u \<Longrightarrow> in_step (showError u m)"
  by (simp add: in_step_def hasFile_def hasApiKey_def showError_def)

lemma in_step_showSummary: "in_step u \<Longrightarrow> in_step (showSummary u m)"
  by (simp add: in_step_def hasFile_def hasApiKey_def showSummary_def)

lemma in_step_UploadUI: "in_step (UploadUI markup loaded)"
  by (simp add: UploadUI_def in_step_updateUI)

lemma in_step_listener: "in_step u \<Longrightarrow> in_step (listener act u)"
  by (cases act)
     (auto simp: handleFileSelect_def clearFile_def apiKeyInput_input_def in_step_updateUI
        in_step_showError split: option.splits)

lemma in_step_meanwhile: "in_step u \<Longrightarrow> in_step (meanwhile acts u)"
  unfolding meanwhile_def by (induction acts arbitrary: u) (simp_all add: in_step_listener)

lemma in_step_handleSummarize:
  "in_step (app_ui a) \<Longrightarrow> in_step (app_ui (snd (handleSummarize a rd duringRead out duringFetch)))"
  by (auto simp: handleSummarize_def getSelectedFile_def getApiKey_def Let_def hideLoading_def
        in_step_showError in_step_showSummary in_step_updateUI
        split: option.splits prod.splits sum.splits)

lemma page_with_fields:
  assumes "file_type f = ''application/pdf''"
  shows "selectedFile (page_with f k) = Some f" and "stored_apiKey (page_with f k) = Some k"
    and "summarizeBtn_disabled (page_with f k) = (k = [] \<or> trim k = [])"
    and "in_step (page_with f k)"
proof -
  show "selectedFile (page_with f k) = Some f" and "stored_apiKey (page_with f k) = Some k"
    and "summarizeBtn_disabled (page_with f k) = (k = [] \<or> trim k = [])"
    using assms
    by (simp_all add: page_with_def meanwhile_def handleFileSelect_def apiKeyInput_input_def
          UploadUI_def updateUI_fields hasFile_def hasApiKey_def)
  show "in_step (page_with f k)"
    by (simp add: page_with_def in_step_meanwhile in_step_UploadUI)
qed


text \<open>
  C6. A run with no file, no credential (null or empty), a declared type other than
  PDF, or more than 20 * 2^20 bytes shows the error that names the reason and ends
  there: it does nothing to the outside (no client method is entered, no request is
  sent) and creates no client.
\<close>

theorem validation_failure_stops_before_network:
  assumes "selectedFile (app_ui a) = None \<or> stored_apiKey (app_ui a) = None
           \<or> stored_apiKey (app_ui a) = Some []
           \<or> (\<exists>f. selectedFile (app_ui a) = Some f
                 \<and> (file_type f \<noteq> ''application/pdf'' \<or> file_size f > 20 * 1024 * 1024))"
  shows "fst (handleSummarize a rd duringRead out duringFetch) = []
       \<and> geminiClient (snd (handleSummarize a rd duringRead out duringFetch)) = geminiClient a
       \<and> errorSection_display (app_ui (snd (handleSummarize a rd duringRead out duringFetch))) = ''block''
       \<and> errorMessage_textContent (app_ui (snd (handleSummarize a rd duringRead out duringFetch))) =
           (if selectedFile (app_ui a) = None \<or> stored_apiKey (app_ui a) = None
               \<or> stored_apiKey (app_ui a) = Some []
            then ''Please select a PDF file and enter your API key''
            else if \<not> isValidPDF (selectedFile (app_ui a)) then ''Please select a valid PDF file''
            else ''File size exceeds 20MB limit'')"
  using assms
  by (auto simp: handleSummarize_def getSelectedFile_def getApiKey_def Let_def showError_def
        isValidPDF_def isValidFileSize_default_def isValidFileSize_def
        split: option.splits)

theorem validation_failure_stops_before_network_witness:
  "fst (handleSummarize
          \<lparr>app_ui = page_with (report\<lparr>file_size := 20971521\<rparr>) ''key'',
           geminiClient = None\<rparr>
          (ReadLoads ''data:application/pdf;base64,JVBERi0='') [] (Rejects ''Failed to fetch'') []) = []
   \<and> errorMessage_textContent (app_ui (snd (handleSummarize
          \<lparr>app_ui = page_with (report\<lparr>file_size := 20971521\<rparr>) ''key'',
           geminiClient = None\<rparr>
          (ReadLoads ''data:application/pdf;base64,JVBERi0='') [] (Rejects ''Failed to fetch'') [])))
       = ''File size exceeds 20MB limit''
   \<and> errorSection_display (app_ui (snd (handleSummarize
          \<lparr>app_ui = page_with (report\<lparr>file_size := 20971521\<rparr>) ''key'',
           geminiClient = None\<rparr>
          (ReadLoads ''data:application/pdf;base64,JVBERi0='') [] (Rejects ''Failed to fetch'') [])))
       = ''block''"
proof -
  let ?f = "report\<lparr>file_size := 20971521\<rparr>"
  let ?a = "\<lparr>app_ui = page_with ?f ''key'', geminiClient = None\<rparr>"
  have pdf: "file_type ?f = ''application/pdf''" by (simp add: report_def)
  have chosen: "selectedFile (app_ui ?a) = Some ?f" by (simp add: page_with_fields [OF pdf])
  have big: "file_size ?f > 20 * 1024 * 1024" by (simp add: report_def)
  have h: "selectedFile (app_ui ?a) = None \<or> stored_apiKey (app_ui ?a) = None
           \<or> stored_apiKey (app_ui ?a) = Some []
           \<or> (\<exists>f. selectedFile (app_ui ?a) = Some f
                 \<and> (file_type f \<noteq> ''application/pdf'' \<or> file_size f > 20 * 1024 * 1024))"
    using chosen big by blast
  from validation_failure_stops_before_network [OF h,
      where rd = "ReadLoads ''data:application/pdf;base64,JVBERi0=''" and duringRead = "[]"
        and out = "Rejects ''Failed to fetch''" and duringFetch = "[]"]
  show ?thesis
    by (simp add: page_with_fields [OF pdf] isValidPDF_def pdf)
qed

text \<open>
  C10. Whatever the file, the credential, the outcomes and the user's actions meanwhile,
  everything a run does to the outside belongs to the inline strategy: entering
  \<^verbatim>\<open>uploadFileBase64\<close> and reading the file, entering
  \<^verbatim>\<open>generateSummaryFromBase64\<close> and posting to the generation URL. No method of the
  direct strategy is entered and no request goes to a URL of the ingestion or status
  endpoint.
\<close>

theorem handleSummarize_uses_inline_path_only:
  "\<forall>ev \<in> set (fst (handleSummarize a rd duringRead out duringFetch)).
      (case stored_apiKey (app_ui a) of None \<Rightarrow> False | Some key \<Rightarrow> inline_event key ev)
      \<and> \<not> direct_path_event ev"
  using handleSummarize_events [of a rd duringRead out duringFetch]
  by (auto simp: generate_url_not_files_endpoint)

theorem handleSummarize_uses_inline_path_only_witness:
  \<open>list_all (\<lambda>ev. inline_event ''key'' ev \<and> \<not> direct_path_event ev)
     (fst (handleSummarize \<lparr>app_ui = page_with report ''key'', geminiClient = None\<rparr>
        (ReadLoads ''data:application/pdf;base64,JVBERi0='') []
        (success ''{"candidates":[{"content":{"parts":[{"text":"This document discusses X."}]}}]}''
           (JObj [(''candidates'', JArr [JObj [(''content'',
              JObj [(''parts'', JArr [JObj [(''text'', JStr ''This document discusses X.'')]])])]])])) []))
   \<and> length (fst (handleSummarize \<lparr>app_ui = page_with report ''key'', geminiClient = None\<rparr>
        (ReadLoads ''data:application/pdf;base64,JVBERi0='') []
        (success ''{"candidates":[{"content":{"parts":[{"text":"This document discusses X."}]}}]}''
           (JObj [(''candidates'', JArr [JObj [(''content'',
              JObj [(''parts'', JArr [JObj [(''text'', JStr ''This document discusses X.'')]])])]])])) [])) = 4
   \<and> summaryContent_textContent (app_ui (snd
       (handleSummarize \<lparr>app_ui = page_with report ''key'', geminiClient = None\<rparr>
        (ReadLoads ''data:application/pdf;base64,JVBERi0='') []
        (success ''{"candidates":[{"content":{"parts":[{"text":"This document discusses X."}]}}]}''
           (JObj [(''candidates'', JArr [JObj [(''content'',
              JObj [(''parts'', JArr [JObj [(''text'', JStr ''This document discusses X.'')]])])]])])) [])))
       = ''This document discusses X.''\<close>
proof -
  let ?a = "\<lparr>app_ui = page_with report ''key'', geminiClient = None\<rparr>"
  let ?out = \<open>success ''{"candidates":[{"content":{"parts":[{"text":"This document discusses X."}]}}]}''
           (JObj [(''candidates'', JArr [JObj [(''content'',
              JObj [(''parts'', JArr [JObj [(''text'', JStr ''This document discusses X.'')]])])]])])\<close>
  have pdf: "file_type report = ''application/pdf''" by (simp add: report_def)
  have key: "stored_apiKey (app_ui ?a) = Some ''key''" by (simp add: page_with_fields [OF pdf])
  have run: "length (fst (handleSummarize ?a (ReadLoads ''data:application/pdf;base64,JVBERi0='') [] ?out [])) = 4
      \<and> summaryContent_textContent (app_ui (snd
           (handleSummarize ?a (ReadLoads ''data:application/pdf;base64,JVBERi0='') [] ?out [])))
         = ''This document discusses X.''"
    by (simp add: handleSummarize_def page_with_fields [OF pdf] getSelectedFile_def getApiKey_def
          isValidPDF_def isValidFileSize_default_def isValidFileSize_def uploadFileBase64_def
          generateSummaryFromBase64_def success_def ok_def and_then_def read_prop_def text_parts_def
          showSummary_def hideLoading_def updateUI_fields meanwhile_def Let_def)
       (simp add: report_def)
  from handleSummarize_uses_inline_path_only
         [where a = ?a and rd = "ReadLoads ''data:application/pdf;base64,JVBERi0=''"
            and duringRead = "[]" and out = ?out and duringFetch = "[]"]
       key run
  show ?thesis
    by (simp add: list_all_iff)
qed




end
